theory Spec2Isabelle
  imports Main
begin

section \<open>Values of the notebook\<close>

text \<open>
  The notebook \<^verbatim>\<open>orbital_visualisation\<close> defines four functions, \<^verbatim>\<open>gen_mol\<close>,
  \<^verbatim>\<open>run_dft\<close>, \<^verbatim>\<open>calc_e\<close> and \<^verbatim>\<open>gen_orb\<close>, and drives them from a few cells. All numerical
  work is done by library calls (\<^verbatim>\<open>mol.build()\<close>, \<^verbatim>\<open>mf.kernel()\<close>, \<^verbatim>\<open>cubegen.orbital\<close>,
  \<^verbatim>\<open>optimize\<close>). The model keeps the notebook's own statements as they are written and takes
  each library call as a parameter: a function of the arguments the notebook passes and of
  the state outside the program (files, the library's own state), returning an exception or
  a result together with the new outside state.
\<close>

subsection \<open>Exceptions\<close>

text \<open>
  \<^verbatim>\<open>IndexError j n\<close> is numpy's "index j is out of bounds for axis 1 with size n";
  \<^verbatim>\<open>OverflowError\<close> is numpy's "Python int too large to convert to C long", for an index
  outside the 64-bit range; \<^verbatim>\<open>ValueError\<close> is CPython's "Exceeds the limit (4300 digits) for
  integer string conversion"; \<^verbatim>\<open>Raised msg\<close> is any exception raised inside a library call.
\<close>

datatype exn = IndexError int nat | OverflowError | ValueError | Raised string

subsection \<open>Python's str on integers\<close>

definition digit_char :: "nat \<Rightarrow> char" where
  "digit_char d = ''0123456789'' ! d"

fun str_nat :: "nat \<Rightarrow> string" where
  "str_nat n = (if n < 10 then [digit_char n] else str_nat (n div 10) @ [digit_char (n mod 10)])"

declare str_nat.simps [simp del]

text \<open>\<open>py_str i\<close> is the decimal text of \<open>i\<close>: what \<^verbatim>\<open>str(i)\<close> returns when it returns.\<close>

definition py_str :: "int \<Rightarrow> string" where
  "py_str i = (if i < 0 then CHR ''-'' # str_nat (nat (- i)) else str_nat (nat i))"

text \<open>
  The builtin \<^verbatim>\<open>str\<close> of the interpreter the notebook ran on (its metadata: Python 3.12.3):
  an integer of more than 4300 digits, that is of magnitude \<open>10 ^ 4300\<close> or more, is refused
  with a ValueError.
\<close>

definition str_limit :: int where
  "str_limit = 10 ^ 4300"

definition str :: "int \<Rightarrow> exn + string" where
  "str i = (if str_limit \<le> \<bar>i\<bar> then Inl ValueError else Inr (py_str i))"

subsection \<open>The molecule object\<close>

text \<open>
  The attributes of \<^verbatim>\<open>gto.Mole\<close> that the notebook assigns; \<open>output_file\<close> is
  \<^verbatim>\<open>mol.output\<close>, the path of the solver's log. \<^verbatim>\<open>atom\<close> is the coordinate block as the
  notebook holds it: the text, one atom per line.
\<close>

record mole =
  atom :: string
  basis :: string
  output_file :: string
  verbose :: int
  charge :: int

subsection \<open>Two-dimensional arrays\<close>

text \<open>
  A numpy array of shape \<open>(length (rows a), ncols a)\<close>, row by row; every row has
  \<open>ncols a\<close> entries, and a dimension is a signed 64-bit size, below \<open>2 ^ 63\<close>. The entries
  are the library's floating-point coefficients, which the notebook never inspects: their
  type is a parameter. \<open>array n rs\<close> is the array of the rows \<open>rs\<close> of \<open>n\<close> entries each (the
  empty array when the rows do not have that shape).
\<close>

typedef 'a ndarray =
  "{(n :: nat, rs :: 'a list list). n < 2 ^ 63 \<and> list_all (\<lambda>r. length r = n) rs}"
  by (rule exI [of _ "(0, [])"]) simp

setup_lifting type_definition_ndarray

lift_definition ncols :: "'a ndarray \<Rightarrow> nat" is fst .

lift_definition rows :: "'a ndarray \<Rightarrow> 'a list list" is snd .

lift_definition array :: "nat \<Rightarrow> 'a list list \<Rightarrow> 'a ndarray" is
  "\<lambda>n rs. if n < 2 ^ 63 \<and> list_all (\<lambda>r. length r = n) rs then (n, rs) else (0, [])"
  by auto

definition col_at :: "'a ndarray \<Rightarrow> nat \<Rightarrow> 'a list" where
  "col_at a j = map (\<lambda>r. r ! j) (rows a)"

text \<open>
  \<^verbatim>\<open>a[:, j]\<close>: the index is first converted to a 64-bit integer, which raises OverflowError
  when it does not fit. An index from \<open>- ncols a\<close> up to \<open>ncols a - 1\<close> then selects a
  column, a negative one counting from the last column; any other index raises IndexError.
\<close>

definition column :: "'a ndarray \<Rightarrow> int \<Rightarrow> exn + 'a list" where
  "column a j =
     (let n = int (ncols a) in
      if j < - (2 ^ 63) \<or> 2 ^ 63 \<le> j then Inl OverflowError
      else if j < - n \<or> n \<le> j then Inl (IndexError j (ncols a))
      else Inr (col_at a (nat (if j < 0 then j + n else j))))"

subsection \<open>The solver object\<close>

text \<open>
  The attributes of the Kohn-Sham object \<^verbatim>\<open>mf\<close> that the notebook reads or assigns:
  \<^verbatim>\<open>mf.mol\<close>, \<^verbatim>\<open>mf.xc\<close>, \<^verbatim>\<open>mf.max_cycle\<close> and, after the run, \<^verbatim>\<open>mf.mo_coeff\<close>
  (atomic orbitals by molecular orbitals); and \<^verbatim>\<open>mf.converged\<close>, in which the solver
  records whether the run met its thresholds within \<^verbatim>\<open>max_cycle\<close> iterations, and which no
  function of the notebook reads.
\<close>

record 'a ks =
  mol :: mole
  xc :: string
  max_cycle :: int
  mo_coeff :: "'a ndarray"
  converged :: bool

subsection \<open>Library calls and the world\<close>

text \<open>
  Every library call the notebook's functions make is recorded, with its arguments, in the
  order it is made.
\<close>

datatype 'a event =
    Build mole
  | Kernel "'a ks"
  | Orbital mole string "'a list"

record ('a, 's) world =
  trace :: "'a event list"
  outside :: 's

text \<open>
  The library, as far as the notebook uses it. \<^verbatim>\<open>gto_Mole\<close> is the fresh object
  \<^verbatim>\<open>gto.Mole()\<close>; \<^verbatim>\<open>build\<close> is \<^verbatim>\<open>mol.build()\<close>, called for its effect; \<^verbatim>\<open>KS\<close> is
  \<^verbatim>\<open>mol.KS()\<close>; \<^verbatim>\<open>kernel\<close> is \<^verbatim>\<open>mf.kernel()\<close>, which returns the object it has filled in;
  \<^verbatim>\<open>cubegen_orbital\<close> is \<^verbatim>\<open>cubegen.orbital(mol, outfile, coeff)\<close>.
\<close>

record ('a, 's) library =
  gto_Mole :: mole
  build :: "mole \<Rightarrow> 's \<Rightarrow> (exn + unit) \<times> 's"
  KS :: "mole \<Rightarrow> 'a ks"
  kernel :: "'a ks \<Rightarrow> 's \<Rightarrow> (exn + 'a ks) \<times> 's"
  cubegen_orbital :: "mole \<Rightarrow> string \<Rightarrow> 'a list \<Rightarrow> 's \<Rightarrow> (exn + unit) \<times> 's"

definition call :: "'a event \<Rightarrow> ('s \<Rightarrow> 'r \<times> 's) \<Rightarrow> ('a, 's) world \<Rightarrow> 'r \<times> ('a, 's) world" where
  "call ev f w =
     (let (r, s') = f (outside w) in (r, w\<lparr>trace := trace w @ [ev], outside := s'\<rparr>))"

text \<open>The events a run has added to the trace it started from.\<close>

definition emitted :: "('a, 's) world \<Rightarrow> ('a, 's) world \<Rightarrow> 'a event list" where
  "emitted w w' = drop (length (trace w)) (trace w')"


fun built :: "'a event list \<Rightarrow> mole list" where
  "built [] = []"
| "built (Build m # es) = m # built es"
| "built (Kernel mf # es) = built es"
| "built (Orbital m f c # es) = built es"

fun kernel_runs :: "'a event list \<Rightarrow> 'a ks list" where
  "kernel_runs [] = []"
| "kernel_runs (Kernel mf # es) = mf # kernel_runs es"
| "kernel_runs (Build m # es) = kernel_runs es"
| "kernel_runs (Orbital m f c # es) = kernel_runs es"

section \<open>The notebook's functions\<close>

subsection \<open>Keyword arguments\<close>

text \<open>
  An argument with a default value is an option: \<open>None\<close> is a call that leaves the argument
  out, and the default of the \<^verbatim>\<open>def\<close> line applies.
\<close>

definition arg_or :: "'v \<Rightarrow> 'v option \<Rightarrow> 'v" where
  "arg_or d v = (case v of None \<Rightarrow> d | Some x \<Rightarrow> x)"

subsection \<open>gen_mol\<close>

text \<open>
  \<^verbatim>\<open>def gen_mol(coords, basis='def2-svp', output='pyscf.log', charge=0):
     mol = gto.Mole()
     mol.atom = coords
     mol.basis = basis
     mol.output = output
     mol.verbose = 5
     mol.charge = charge
     mol.build()
     return mol\<close>

  \<^verbatim>\<open>mol.build()\<close> is called without arguments, for its effect: it may raise, and it acts on
  the outside state; the returned object carries the attributes the function assigned.
\<close>

definition gen_mol ::
  "('a, 's) library \<Rightarrow> string \<Rightarrow> string option \<Rightarrow> string option \<Rightarrow> int option \<Rightarrow>
     ('a, 's) world \<Rightarrow> (exn + mole) \<times> ('a, 's) world" where
  "gen_mol lib coords basis_arg output_arg charge_arg w =
     (let m = gto_Mole lib;
          m = m\<lparr>atom := coords\<rparr>;
          m = m\<lparr>basis := arg_or ''def2-svp'' basis_arg\<rparr>;
          m = m\<lparr>output_file := arg_or ''pyscf.log'' output_arg\<rparr>;
          m = m\<lparr>verbose := 5\<rparr>;
          m = m\<lparr>charge := arg_or 0 charge_arg\<rparr>
      in case call (Build m) (build lib m) w of
           (Inl e, w') \<Rightarrow> (Inl e, w')
         | (Inr u, w') \<Rightarrow> (Inr m, w'))"

subsection \<open>run_dft\<close>

text \<open>
  \<^verbatim>\<open>def run_dft(mol, xc_func='b3lyp'):
     mf = mol.KS()
     mf.xc = xc_func
     mf.max_cycle = 300
     mf.kernel()
     return mf\<close>

  An exception of \<^verbatim>\<open>mf.kernel()\<close> is not caught; otherwise the object the solver has
  filled in is returned as it is.
\<close>

definition run_dft ::
  "('a, 's) library \<Rightarrow> mole \<Rightarrow> string option \<Rightarrow> ('a, 's) world \<Rightarrow> (exn + 'a ks) \<times> ('a, 's) world" where
  "run_dft lib m xc_arg w =
     (let mf = KS lib m;
          mf = mf\<lparr>xc := arg_or ''b3lyp'' xc_arg\<rparr>;
          mf = mf\<lparr>max_cycle := 300\<rparr>
      in call (Kernel mf) (kernel lib mf) w)"

subsection \<open>calc_e\<close>

text \<open>
  \<^verbatim>\<open>def calc_e(coords, basis='def2-svp', xc_func='b3lyp'):
     mol = gen_mol(coords, basis=basis)
     mf = run_dft(mol, xc_func)
     return mf\<close>
\<close>

definition calc_e ::
  "('a, 's) library \<Rightarrow> string \<Rightarrow> string option \<Rightarrow> string option \<Rightarrow> ('a, 's) world \<Rightarrow>
     (exn + 'a ks) \<times> ('a, 's) world" where
  "calc_e lib coords basis_arg xc_arg w =
     (case gen_mol lib coords (Some (arg_or ''def2-svp'' basis_arg)) None None w of
        (Inl e, w') \<Rightarrow> (Inl e, w')
      | (Inr m, w') \<Rightarrow> run_dft lib m (Some (arg_or ''b3lyp'' xc_arg)) w')"

subsection \<open>gen_orb\<close>

text \<open>
  \<^verbatim>\<open>def gen_orb(mol_name:str, orb_num:int, mf):
     file = mol_name + '_mol_' + str(orb_num) + '.cub'
     cubegen.orbital(mf.mol, file, mf.mo_coeff[:,orb_num - 1])\<close>

  The first statement can raise in \<^verbatim>\<open>str\<close>. The arguments of the call are evaluated before
  the call: an exception of the column selection leaves the function before the grid
  generator is reached.
\<close>

definition gen_orb ::
  "('a, 's) library \<Rightarrow> string \<Rightarrow> int \<Rightarrow> 'a ks \<Rightarrow> ('a, 's) world \<Rightarrow> (exn + unit) \<times> ('a, 's) world" where
  "gen_orb lib mol_name orb_num mf w =
     (case str orb_num of
        Inl e \<Rightarrow> (Inl e, w)
      | Inr s \<Rightarrow>
          (let file = mol_name @ ''_mol_'' @ s @ ''.cub'' in
           case column (mo_coeff mf) (orb_num - 1) of
             Inl e \<Rightarrow> (Inl e, w)
           | Inr c \<Rightarrow> call (Orbital (mol mf) file c) (cubegen_orbital lib (mol mf) file c) w))"

section \<open>Library behaviour taken from the specification\<close>

subsection \<open>The build's log\<close>

text \<open>
  The part of the machine a build acts on: the files by path, the paths that can be opened
  for writing, and the lines printed on standard output.
\<close>

record machine =
  disk :: "string \<Rightarrow> string option"
  writable :: "string \<Rightarrow> bool"
  stdout :: "string list"

text \<open>
  Modelled from the spec: \<^verbatim>\<open>Mole.build\<close> of the quantum-chemistry package, which the
  repository calls and does not contain. Section 4.2: the build validates its input
  ("validation delegated to the external solver", here \<open>valid\<close>) and "may redirect solver
  diagnostic output to log_path, overwriting any existing file at that path"; section 5:
  the log is "opened/overwritten per Molecule Builder invocation"; section 7: "unwritable
  log/output paths" are I/O errors, "propagated unmodified". The notebook's recorded output
  of \<^verbatim>\<open>my_mf = calc_e(benzene_coordinates)\<close> is the line
  \<^verbatim>\<open>overwrite output file: pyscf.log\<close>: at a verbosity above 0 the library announces the
  log on standard output before it opens it, as \<^verbatim>\<open>overwrite output file: <path>\<close> when a file
  is there and as \<^verbatim>\<open>output file: <path>\<close> when none is. A path that cannot be opened
  makes the build raise, and nothing is created. The log is opened before the input is
  validated, so every build on a writable path has overwritten it. \<open>diag\<close> is the
  diagnostic text a build writes.
\<close>

definition Mole_build ::
  "(mole \<Rightarrow> bool) \<Rightarrow> (mole \<Rightarrow> string) \<Rightarrow> mole \<Rightarrow> machine \<Rightarrow> (exn + unit) \<times> machine" where
  "Mole_build valid diag m os =
     (let p = output_file m;
          notice = (case disk os p of
                      None \<Rightarrow> ''output file: '' @ p
                    | Some old \<Rightarrow> ''overwrite output file: '' @ p);
          os = (if 0 < verbose m then os\<lparr>stdout := stdout os @ [notice]\<rparr> else os)
      in if writable os p
         then (let os = os\<lparr>disk := (disk os)(p \<mapsto> diag m)\<rparr>
               in if valid m then (Inr (), os) else (Inl (Raised ''invalid molecule''), os))
         else (Inl (Raised ''cannot open the log''), os))"

subsection \<open>Geometry optimisation\<close>

text \<open>
  Modelled from the spec: the AtomRecord of section 3, "{symbol: element label, position: 3
  real-valued coordinates}". The coordinate type is a parameter.
\<close>

record 'c atom_record =
  symbol :: string
  position :: 'c

text \<open>
  Modelled from the spec: the MoleculeSpec of section 3, "ordered sequence of AtomRecord, plus
  basis-set identifier (string), net charge (integer), solver verbosity level (integer),
  log-output destination (string path)".
\<close>

record 'c molecule_spec =
  atoms :: "'c atom_record list"
  basis_set :: string
  net_charge :: int
  verbosity :: int
  log_path :: string

text \<open>
  Modelled from the spec: the "molecule handle" of section 2. Molecules are objects: a
  handle is a position in the list of the objects allocated so far, and a new object is
  appended to that list.
\<close>

type_synonym ref = nat

type_synonym 'c heap = "'c molecule_spec list"

text \<open>
  Modelled from the spec: the SolvedState of section 3, a handle that "carries total energy
  (real scalar) and an orbital-coefficient matrix"; \<open>molecule\<close> is the molecule it was
  solved for (\<^verbatim>\<open>mf.mol\<close> in the notebook).
\<close>

record ('c, 'a) solved_state =
  molecule :: ref
  total_energy :: 'a
  coefficients :: "'a ndarray"

text \<open>
  Modelled from the spec: writing a geometry into a molecule; symbols and order stay, each
  atom gets its new position.
\<close>

definition set_positions :: "'c list \<Rightarrow> 'c molecule_spec \<Rightarrow> 'c molecule_spec" where
  "set_positions ps m = m\<lparr>atoms := map (\<lambda>(a, p). a\<lparr>position := p\<rparr>) (zip (atoms m) ps)\<rparr>"

text \<open>
  Modelled from the spec: the loop of the external optimizer (section 4.4), which
  "iteratively computes energy/gradient at the current geometry", "proposes a coordinate
  update" (\<open>step\<close>) "and stops when all of {energy change, RMS gradient, max gradient, RMS
  displacement, max displacement} fall under fixed thresholds" (\<open>settled\<close>) "or when
  max_steps is exhausted". It works on the object at \<open>r\<close>.
\<close>

fun relax ::
  "('c list \<Rightarrow> 'c list) \<Rightarrow> ('c list \<Rightarrow> bool) \<Rightarrow> nat \<Rightarrow> ref \<Rightarrow> 'c heap \<Rightarrow> 'c heap" where
  "relax step settled 0 r h = h"
| "relax step settled (Suc n) r h =
     (let g = map position (atoms (h ! r)) in
      if settled g then h
      else relax step settled n r (h[r := set_positions (step g) (h ! r)]))"

text \<open>
  Modelled from the spec: \<^verbatim>\<open>optimize\<close> of the geometry-optimization package, which the
  notebook imports and calls as \<^verbatim>\<open>mol_eq = optimize(my_mf, maxsteps=100)\<close>. Section 4.4:
  \<^verbatim>\<open>optimize(state: SolvedState, max_steps: integer) -> MoleculeSpec\<close> "returns the best/last
  geometry found", "without raising" when the steps run out; section 2: it "returns a new
  molecule handle with updated coordinates"; section 3: "optimization produces a new
  MoleculeSpec rather than mutating the old one". The result is a new object, a copy of
  the state's molecule on which the loop has worked.
\<close>

definition optimize ::
  "('c list \<Rightarrow> 'c list) \<Rightarrow> ('c list \<Rightarrow> bool) \<Rightarrow> ('c, 'a) solved_state \<Rightarrow> nat \<Rightarrow> 'c heap \<Rightarrow>
     ref \<times> 'c heap" where
  "optimize step settled state max_steps h =
     (let r = length h;
          h = h @ [h ! molecule state]
      in (r, relax step settled max_steps r h))"

section \<open>Sample inputs\<close>

text \<open>
  A library that always succeeds, over a file system (a map from paths to contents): the
  build writes the log, the solver returns two converged molecular orbitals over two atomic
  orbitals, the grid generator writes the file it is given. \<open>slow_solver\<close> is the same
  library with a solver that needs 1000 iterations on every input: it returns normally, and
  its state is converged only if the cap allows that many.
\<close>

type_synonym files = "string \<Rightarrow> string option"

definition stub_library :: "(int, files) library" where
  "stub_library =
     \<lparr>gto_Mole = \<lparr>atom = [], basis = ''sto-3g'', output_file = [], verbose = 3, charge = 0\<rparr>,
      build = (\<lambda>m fs. (Inr (), fs(output_file m \<mapsto> ''build log''))),
      KS = (\<lambda>m. \<lparr>mol = m, xc = ''lda,vwn'', max_cycle = 50, mo_coeff = array 0 [],
                 converged = False\<rparr>),
      kernel = (\<lambda>mf fs. (Inr (mf\<lparr>mo_coeff := array 2 [[1, 2], [3, 4]], converged := True\<rparr>), fs)),
      cubegen_orbital = (\<lambda>m f c fs. (Inr (), fs(f \<mapsto> ''cube'')))\<rparr>"

definition slow_solver :: "(int, files) library" where
  "slow_solver =
     stub_library\<lparr>kernel := (\<lambda>mf fs.
        (Inr (mf\<lparr>mo_coeff := array 2 [[1, 2], [3, 4]], converged := (1000 \<le> max_cycle mf)\<rparr>), fs))\<rparr>"

definition start :: "(int, files) world" where
  "start = \<lparr>trace = [], outside = Map.empty\<rparr>"

text \<open>
  Hydrogen and helium in the minimal basis: two atomic orbitals and two molecular orbitals
  for the molecule, one of each for the atom. \<open>no_orbitals\<close> is a state over a molecule
  without atoms, whose coefficient matrix has no column.
\<close>

definition h2_mole :: mole where
  "h2_mole = \<lparr>atom = ''H 0 0 0; H 0 0 0.74'', basis = ''sto-3g'', output_file = ''pyscf.log'',
     verbose = 5, charge = 0\<rparr>"

definition h2_solved :: "int ks" where
  "h2_solved = \<lparr>mol = h2_mole, xc = ''b3lyp'', max_cycle = 300,
     mo_coeff = array 2 [[1, 2], [3, 4]], converged = True\<rparr>"



definition no_orbitals :: "int ks" where
  "no_orbitals = \<lparr>mol = \<lparr>atom = [], basis = ''sto-3g'', output_file = ''pyscf.log'',
       verbose = 5, charge = 0\<rparr>,
     xc = ''b3lyp'', max_cycle = 300, mo_coeff = array 0 [], converged = True\<rparr>"

definition water :: string where
  "water = ''O 0.93500 -0.05051 0.04534; H 1.90288 -0.06684 0.08881; H 0.65615 -0.37698 0.91403''"

definition water_mole :: mole where
  "water_mole = \<lparr>atom = water, basis = ''def2-svp'', output_file = ''pyscf.log'', verbose = 5,
     charge = 0\<rparr>"

definition after_build :: "(int, files) world" where
  "after_build = \<lparr>trace = [Build water_mole], outside = [''pyscf.log'' \<mapsto> ''build log'']\<rparr>"

text \<open>
  A library whose build is the build of the specification, and a machine on which an
  earlier run has left its log.
\<close>

definition logging_library :: "(int, machine) library" where
  "logging_library =
     \<lparr>gto_Mole = \<lparr>atom = [], basis = ''sto-3g'', output_file = [], verbose = 3, charge = 0\<rparr>,
      build = Mole_build (\<lambda>m. True) (\<lambda>m. ''new run''),
      KS = (\<lambda>m. \<lparr>mol = m, xc = ''lda,vwn'', max_cycle = 50, mo_coeff = array 0 [],
                 converged = False\<rparr>),
      kernel = (\<lambda>mf os. (Inr (mf\<lparr>converged := True\<rparr>), os)),
      cubegen_orbital = (\<lambda>m f c os. (Inr (), os))\<rparr>"

definition used_machine :: machine where
  "used_machine = \<lparr>disk = [''pyscf.log'' \<mapsto> ''old run''], writable = (\<lambda>p. True), stdout = []\<rparr>"

text \<open>
  A heap holding one hydrogen molecule (positions in thousandths of the length unit), a
  state solved for it, an update that moves every atom down by one, and a convergence test
  that never holds.
\<close>

definition h2_spec :: "(int \<times> int \<times> int) molecule_spec" where
  "h2_spec = \<lparr>atoms = [\<lparr>symbol = ''H'', position = (0, 0, 0)\<rparr>, \<lparr>symbol = ''H'', position = (0, 0, 740)\<rparr>],
     basis_set = ''def2-svp'', net_charge = 0, verbosity = 5, log_path = ''pyscf.log''\<rparr>"

definition h2_state :: "(int \<times> int \<times> int, int) solved_state" where
  "h2_state = \<lparr>molecule = 0, total_energy = - 1, coefficients = array 2 [[1, 2], [3, 4]]\<rparr>"

definition sink :: "(int \<times> int \<times> int) list \<Rightarrow> (int \<times> int \<times> int) list" where
  "sink g = map (\<lambda>(x, y, z). (x, y, z - 1)) g"

definition never :: "(int \<times> int \<times> int) list \<Rightarrow> bool" where
  "never g = False"

section \<open>Properties\<close>

subsection \<open>Library calls\<close>

lemma trace_call: "trace (snd (call ev f w)) = trace w @ [ev]"
  by (simp add: call_def split: prod.splits)

lemma fst_call: "fst (call ev f w) = fst (f (outside w))"
  by (simp add: call_def split: prod.splits)

lemma outside_call: "outside (snd (call ev f w)) = snd (f (outside w))"
  by (simp add: call_def split: prod.splits)

lemma call_eq:
  "call ev f w = (fst (f (outside w)), w\<lparr>trace := trace w @ [ev], outside := snd (f (outside w))\<rparr>)"
  by (simp add: call_def split: prod.splits)


lemma emitted_app: "trace w' = trace w @ es \<Longrightarrow> emitted w w' = es"
  by (simp add: emitted_def)

lemma emitted_call: "emitted w (snd (call ev f w)) = [ev]"
  by (simp add: emitted_app trace_call)

subsection \<open>Arrays, column selection and str\<close>


lemma ncols_array:
  "n < 2 ^ 63 \<Longrightarrow> list_all (\<lambda>r. length r = n) rs \<Longrightarrow> ncols (array n rs) = n"
  by transfer simp

lemma rows_array:
  "n < 2 ^ 63 \<Longrightarrow> list_all (\<lambda>r. length r = n) rs \<Longrightarrow> rows (array n rs) = rs"
  by transfer simp

lemma str_limit_large: "2 ^ 64 \<le> str_limit"
proof -
  have "(2::int) ^ 64 \<le> 10 ^ 64"
    by (rule power_mono) simp_all
  also have "(10::int) ^ 64 \<le> 10 ^ 4300"
    by (rule power_increasing) simp_all
  finally show ?thesis
    by (simp only: str_limit_def)
qed

lemma str_small: "\<bar>i\<bar> < 2 ^ 64 \<Longrightarrow> str i = Inr (py_str i)"
  using str_limit_large by (simp add: str_def)




lemma column_last: "0 < ncols a \<Longrightarrow> column a (- 1) = Inr (col_at a (ncols a - 1))"
  by (simp add: column_def Let_def nat_diff_distrib')


lemma py_str_0: "py_str 0 = ''0''"
  by (simp add: py_str_def str_nat.simps digit_char_def)



lemma py_str_negative: "py_str (- 12) = ''-12''"
  by (simp add: py_str_def str_nat.simps digit_char_def)

lemma h2_columns: "ncols (mo_coeff h2_solved) = 2" "rows (mo_coeff h2_solved) = [[1, 2], [3, 4]]"
  by (simp_all add: h2_solved_def ncols_array rows_array)

subsection \<open>The orbital exporter\<close>




text \<open>
  C8, amended. Called with the orbital index 0 on a state with at least one molecular
  orbital, gen_orb raises nothing of its own: the index \<open>- 1\<close> selects the last column of
  \<^verbatim>\<open>mf.mo_coeff\<close>, the grid generator is called once, with that column and the file name
  \<^verbatim>\<open><label>_mol_0.cub\<close>, and the result of gen_orb and the outside state it leaves are those
  of that call: where the generator writes its file and returns, gen_orb has written the
  file and returns, and where the generator raises, gen_orb raises the same.
\<close>

theorem gen_orb_index_zero:
  assumes "0 < ncols (mo_coeff mf)"
  shows "gen_orb lib mol_name 0 mf w =
           (let c = col_at (mo_coeff mf) (ncols (mo_coeff mf) - 1);
                file = mol_name @ ''_mol_0.cub'';
                r = cubegen_orbital lib (mol mf) file c (outside w)
            in (fst r, w\<lparr>trace := trace w @ [Orbital (mol mf) file c], outside := snd r\<rparr>))"
  using assms by (simp add: gen_orb_def str_small column_last call_eq py_str_0 Let_def)

theorem gen_orb_index_zero_witness:
  "gen_orb stub_library ''h2'' 0 h2_solved start =
     (Inr (), \<lparr>trace = [Orbital h2_mole ''h2_mol_0.cub'' [2, 4]],
               outside = [''h2_mol_0.cub'' \<mapsto> ''cube'']\<rparr>)"
  using gen_orb_index_zero [of h2_solved stub_library "''h2''" start]
  by (simp add: h2_columns col_at_def Let_def) (simp add: h2_solved_def stub_library_def start_def)

text \<open>
  C8, as stated without a condition on the state: calling gen_orb with the orbital index 0
  does not raise. On a state whose coefficient matrix has no column there is no last
  column: the index \<open>- 1\<close> is out of bounds and the call raises IndexError.
\<close>

theorem gen_orb_no_column_counterexample:
  "gen_orb stub_library ''x'' 0 no_orbitals start = (Inl (IndexError (- 1) 0), start)"
  by (simp add: gen_orb_def str_small py_str_0 column_def no_orbitals_def ncols_array Let_def)




subsection \<open>The energy evaluator\<close>

lemma trace_run_dft:
  "trace (snd (run_dft lib m xc_arg w)) =
     trace w @ [Kernel ((KS lib m)\<lparr>xc := arg_or ''b3lyp'' xc_arg, max_cycle := 300\<rparr>)]"
  by (simp add: run_dft_def Let_def trace_call)


text \<open>
  C2, as the specification states it: when the SCF loop does not converge within the cap,
  the energy evaluator fails. With a solver that needs 1000 iterations, the run that
  run_dft starts with its cap of 300 ends unconverged and returns; run_dft does not fail,
  it returns the unconverged state.
\<close>

theorem run_dft_unconverged_counterexample:
  "fst (run_dft slow_solver h2_mole None start) =
     Inr \<lparr>mol = h2_mole, xc = ''b3lyp'', max_cycle = 300, mo_coeff = array 2 [[1, 2], [3, 4]],
          converged = False\<rparr>
   \<and> kernel_runs (emitted start (snd (run_dft slow_solver h2_mole None start))) =
     [\<lparr>mol = h2_mole, xc = ''b3lyp'', max_cycle = 300, mo_coeff = array 0 [],
       converged = False\<rparr>]"
  by (simp add: run_dft_def call_def emitted_def slow_solver_def stub_library_def start_def
      arg_or_def Let_def)

text \<open>
  C2, amended. For every molecule, run_dft starts exactly one solver run, with the cap 300,
  and makes no other library call: there is no retry. Its result and the outside state it
  leaves are those of that run: an exception of the solver is passed on unmodified, and a
  state the solver returns is returned as it is, converged or not.
\<close>

theorem run_dft_outcome:
  "fst (run_dft lib m xc_arg w) =
     fst (kernel lib ((KS lib m)\<lparr>xc := arg_or ''b3lyp'' xc_arg, max_cycle := 300\<rparr>) (outside w))
   \<and> outside (snd (run_dft lib m xc_arg w)) =
     snd (kernel lib ((KS lib m)\<lparr>xc := arg_or ''b3lyp'' xc_arg, max_cycle := 300\<rparr>) (outside w))
   \<and> emitted w (snd (run_dft lib m xc_arg w)) =
     [Kernel ((KS lib m)\<lparr>xc := arg_or ''b3lyp'' xc_arg, max_cycle := 300\<rparr>)]"
  by (simp add: run_dft_def fst_call outside_call emitted_call Let_def)

subsection \<open>The molecule builder\<close>

lemma trace_gen_mol:
  "trace (snd (gen_mol lib coords b out c w)) =
     trace w @ [Build ((gto_Mole lib)\<lparr>atom := coords, basis := arg_or ''def2-svp'' b,
        output_file := arg_or ''pyscf.log'' out, verbose := 5, charge := arg_or 0 c\<rparr>)]"
  by (simp add: gen_mol_def Let_def call_def split: prod.splits sum.splits)

lemma gen_mol_result:
  "gen_mol lib coords b out c w = (Inr m, w') \<Longrightarrow>
     m = (gto_Mole lib)\<lparr>atom := coords, basis := arg_or ''def2-svp'' b,
        output_file := arg_or ''pyscf.log'' out, verbose := 5, charge := arg_or 0 c\<rparr>"
  by (auto simp add: gen_mol_def Let_def split: prod.splits sum.splits)

lemma fst_gen_mol:
  "fst (gen_mol lib coords b out c w) =
     (let m = (gto_Mole lib)\<lparr>atom := coords, basis := arg_or ''def2-svp'' b,
        output_file := arg_or ''pyscf.log'' out, verbose := 5, charge := arg_or 0 c\<rparr>
      in case fst (build lib m (outside w)) of Inl e \<Rightarrow> Inl e | Inr u \<Rightarrow> Inr m)"
  by (simp add: gen_mol_def Let_def call_def split: prod.splits sum.splits)

lemma outside_gen_mol:
  "outside (snd (gen_mol lib coords b out c w)) =
     snd (build lib ((gto_Mole lib)\<lparr>atom := coords, basis := arg_or ''def2-svp'' b,
        output_file := arg_or ''pyscf.log'' out, verbose := 5, charge := arg_or 0 c\<rparr>) (outside w))"
  by (simp add: gen_mol_def Let_def call_def split: prod.splits sum.splits)

lemma first_build: "gen_mol stub_library water None None None start = (Inr water_mole, after_build)"
  by (simp add: gen_mol_def call_def stub_library_def start_def after_build_def water_mole_def
      arg_or_def Let_def)

lemma second_build:
  "gen_mol stub_library water None None None after_build =
     (Inr water_mole, after_build\<lparr>trace := [Build water_mole, Build water_mole]\<rparr>)"
  by (simp add: gen_mol_def call_def stub_library_def after_build_def water_mole_def
      arg_or_def Let_def)

text \<open>
  C6. gen_mol is deterministic: two calls with the same coordinate block, basis, log path
  and charge, in any two worlds (before and after an earlier build, say), that both
  return a molecule return molecules with the same atoms, basis and charge.
\<close>

theorem gen_mol_deterministic:
  assumes "gen_mol lib coords basis_arg output_arg charge_arg w1 = (Inr m1, w1')"
    and "gen_mol lib coords basis_arg output_arg charge_arg w2 = (Inr m2, w2')"
  shows "atom m1 = atom m2 \<and> basis m1 = basis m2 \<and> charge m1 = charge m2"
  using gen_mol_result [OF assms(1)] gen_mol_result [OF assms(2)] by simp

theorem gen_mol_deterministic_witness:
  "gen_mol stub_library water None None None start = (Inr water_mole, after_build)
   \<and> gen_mol stub_library water None None None after_build =
       (Inr water_mole, after_build\<lparr>trace := [Build water_mole, Build water_mole]\<rparr>)
   \<and> atom (projr (fst (gen_mol stub_library water None None None start))) =
       atom (projr (fst (gen_mol stub_library water None None None after_build)))
   \<and> basis (projr (fst (gen_mol stub_library water None None None start))) =
       basis (projr (fst (gen_mol stub_library water None None None after_build)))
   \<and> charge (projr (fst (gen_mol stub_library water None None None start))) =
       charge (projr (fst (gen_mol stub_library water None None None after_build)))"
  using gen_mol_deterministic [OF first_build second_build]
  by (simp add: first_build second_build)

text \<open>
  C7, as the specification states it: an existing file at the log path is overwritten
  without warning. On a machine that holds the log of an earlier run, a build without a log
  destination replaces the contents of \<^verbatim>\<open>pyscf.log\<close> and succeeds, and the library prints
  the line \<^verbatim>\<open>overwrite output file: pyscf.log\<close>, as the notebook's recorded output shows.
\<close>

theorem gen_mol_notice_counterexample:
  "fst (gen_mol logging_library water None None None \<lparr>trace = [], outside = used_machine\<rparr>) =
     Inr water_mole
   \<and> disk (outside (snd (gen_mol logging_library water None None None
        \<lparr>trace = [], outside = used_machine\<rparr>))) ''pyscf.log'' = Some ''new run''
   \<and> stdout (outside (snd (gen_mol logging_library water None None None
        \<lparr>trace = [], outside = used_machine\<rparr>))) = [''overwrite output file: pyscf.log'']"
  by (simp add: fst_gen_mol outside_gen_mol logging_library_def used_machine_def Mole_build_def
      water_mole_def arg_or_def Let_def)

text \<open>
  C7, amended. Called without a log destination, gen_mol builds a molecule whose log path
  is \<^verbatim>\<open>pyscf.log\<close>, for every library. With the build of the specification, a file that
  exists at the chosen log path, when that path can be written, is overwritten on every
  build: after the call the path holds the diagnostics of this build, whatever it held
  before, and the result of the call is the same as with no file there. The overwrite is
  announced: the line \<^verbatim>\<open>overwrite output file: <path>\<close> is printed on standard output.
\<close>

theorem gen_mol_default_log:
  assumes "writable os (arg_or ''pyscf.log'' output_arg)"
    and "disk os (arg_or ''pyscf.log'' output_arg) = Some old"
  shows "map output_file (built (emitted w (snd (gen_mol lib coords basis_arg None charge_arg w)))) =
           [''pyscf.log'']
         \<and> disk (outside (snd (gen_mol (lib\<lparr>build := Mole_build valid diag\<rparr>) coords basis_arg
              output_arg charge_arg (w\<lparr>outside := os\<rparr>)))) =
           (disk os)(arg_or ''pyscf.log'' output_arg \<mapsto>
              diag ((gto_Mole lib)\<lparr>atom := coords, basis := arg_or ''def2-svp'' basis_arg,
                output_file := arg_or ''pyscf.log'' output_arg, verbose := 5,
                charge := arg_or 0 charge_arg\<rparr>))
         \<and> stdout (outside (snd (gen_mol (lib\<lparr>build := Mole_build valid diag\<rparr>) coords basis_arg
              output_arg charge_arg (w\<lparr>outside := os\<rparr>)))) =
           stdout os @ [''overwrite output file: '' @ arg_or ''pyscf.log'' output_arg]
         \<and> fst (gen_mol (lib\<lparr>build := Mole_build valid diag\<rparr>) coords basis_arg output_arg
              charge_arg (w\<lparr>outside := os\<rparr>)) =
           fst (gen_mol (lib\<lparr>build := Mole_build valid diag\<rparr>) coords basis_arg output_arg
              charge_arg (w\<lparr>outside := os\<lparr>disk := (disk os)(arg_or ''pyscf.log'' output_arg := None)\<rparr>\<rparr>))"
  using assms
  by (simp add: emitted_app [OF trace_gen_mol] outside_gen_mol fst_gen_mol Mole_build_def Let_def)
    (simp add: arg_or_def)

theorem gen_mol_default_log_witness:
  "writable used_machine ''pyscf.log'' \<and> disk used_machine ''pyscf.log'' = Some ''old run''
   \<and> disk (outside (snd (gen_mol logging_library water None None None
        \<lparr>trace = [], outside = used_machine\<rparr>))) = [''pyscf.log'' \<mapsto> ''new run'']
   \<and> stdout (outside (snd (gen_mol logging_library water None None None
        \<lparr>trace = [], outside = used_machine\<rparr>))) = [''overwrite output file: pyscf.log'']"
  using gen_mol_default_log [where os = used_machine and output_arg = None and old = "''old run''"
      and lib = logging_library and valid = "\<lambda>m. True" and diag = "\<lambda>m. ''new run''"
      and coords = water and basis_arg = None and charge_arg = None
      and w = "\<lparr>trace = [], outside = used_machine\<rparr>"]
  by (simp add: arg_or_def) (simp add: used_machine_def logging_library_def)

subsection \<open>The combined entry point\<close>

text \<open>
  C10. For every coordinate block, basis and functional, calc_e builds exactly one
  molecule, and its charge is 0: calc_e passes no charge to gen_mol.
\<close>

theorem calc_e_charge_zero:
  "map charge (built (emitted w (snd (calc_e lib coords basis_arg xc_arg w)))) = [0]"
proof (cases "gen_mol lib coords (Some (arg_or ''def2-svp'' basis_arg)) None None w")
  case (Pair r w')
  have tr: "trace w' = trace w @ [Build ((gto_Mole lib)\<lparr>atom := coords,
      basis := arg_or ''def2-svp'' basis_arg, output_file := ''pyscf.log'', verbose := 5,
      charge := 0\<rparr>)]"
    using trace_gen_mol [of lib coords "Some (arg_or ''def2-svp'' basis_arg)" None None w] Pair
    by (simp add: arg_or_def)
  show ?thesis
  proof (cases r)
    case (Inl e)
    with Pair tr show ?thesis by (simp add: calc_e_def emitted_app)
  next
    case (Inr m)
    with Pair tr show ?thesis by (simp add: calc_e_def emitted_def trace_run_dft)
  qed
qed

subsection \<open>Geometry optimisation\<close>

lemma relax_frame:
  "r < length h \<Longrightarrow>
     length (relax step settled n r h) = length h
     \<and> (\<forall>i. i \<noteq> r \<longrightarrow> relax step settled n r h ! i = h ! i)"
proof (induction n arbitrary: h)
  case 0
  then show ?case by simp
next
  case (Suc n)
  show ?case
  proof (cases "settled (map position (atoms (h ! r)))")
    case True
    then show ?thesis by simp
  next
    case False
    let ?h = "h[r := set_positions (step (map position (atoms (h ! r)))) (h ! r)]"
    have "r < length ?h" using Suc.prems by simp
    from Suc.IH [OF this] False show ?thesis by (simp add: Let_def)
  qed
qed

lemma h2_run:
  "optimize sink never h2_state 2 [h2_spec] =
     (1, [h2_spec, h2_spec\<lparr>atoms := [\<lparr>symbol = ''H'', position = (0, 0, - 2)\<rparr>,
                                     \<lparr>symbol = ''H'', position = (0, 0, 738)\<rparr>]\<rparr>])"
  by (simp add: optimize_def eval_nat_numeral Let_def never_def sink_def set_positions_def
      h2_state_def h2_spec_def)

text \<open>
  C5. For every solved state whose molecule is an object of the heap and every step cap,
  the optimizer returns a handle that did not exist before the call, and every object that
  existed before the call is unchanged after it; in particular the atom records (symbols,
  order, coordinates), the basis and the charge of the state's molecule are what they were.
\<close>

theorem optimize_new_molecule:
  assumes "molecule state < length h"
    and "optimize step settled state max_steps h = (r, h')"
  shows "length h \<le> r \<and> r < length h' \<and> take (length h) h' = h
         \<and> atoms (h' ! molecule state) = atoms (h ! molecule state)
         \<and> basis_set (h' ! molecule state) = basis_set (h ! molecule state)
         \<and> net_charge (h' ! molecule state) = net_charge (h ! molecule state)"
proof -
  let ?h1 = "h @ [h ! molecule state]"
  have r: "r = length h" and h': "h' = relax step settled max_steps (length h) ?h1"
    using assms(2) by (auto simp add: optimize_def Let_def)
  have fr: "length h' = length ?h1 \<and> (\<forall>i. i \<noteq> length h \<longrightarrow> h' ! i = ?h1 ! i)"
    unfolding h' by (rule relax_frame) simp
  have same: "take (length h) h' = h"
    by (rule nth_equalityI) (use fr in \<open>auto simp: nth_append\<close>)
  have "h' ! molecule state = ?h1 ! molecule state"
    using fr assms(1) by simp
  then have "h' ! molecule state = h ! molecule state"
    using assms(1) by (simp add: nth_append)
  with r fr same show ?thesis by simp
qed

theorem optimize_new_molecule_witness:
  "molecule h2_state < length [h2_spec]
   \<and> optimize sink never h2_state 2 [h2_spec] =
     (1, [h2_spec, h2_spec\<lparr>atoms := [\<lparr>symbol = ''H'', position = (0, 0, - 2)\<rparr>,
                                     \<lparr>symbol = ''H'', position = (0, 0, 738)\<rparr>]\<rparr>])
   \<and> atoms ([h2_spec, h2_spec\<lparr>atoms := [\<lparr>symbol = ''H'', position = (0, 0, - 2)\<rparr>,
                                       \<lparr>symbol = ''H'', position = (0, 0, 738)\<rparr>]\<rparr>]
              ! molecule h2_state) = atoms h2_spec"
proof -
  have valid: "molecule h2_state < length [h2_spec]"
    by (simp add: h2_state_def)
  from optimize_new_molecule [OF valid h2_run] valid h2_run show ?thesis
    by simp
qed

end
